theory Spec2Isabelle
  imports Main
begin

section \<open>Tokens, positions and field types\<close>

text \<open>
  Modelled from the spec: the token kinds of the lexer, whose declaration is not part of
  \<^verbatim>\<open>util.go\<close>. The source names \<open>QtkCmpGlob\<close> and \<open>QtkCmpRegexp\<close>; the spec
  speaks of the logical connectives AND/OR, of negation, and of the comparisons
  "equality, ordering, glob-match, regex-match". \<open>QtkOther n\<close> stands for every further
  kind a token can have (literals, parentheses, end of input).
\<close>

datatype QueryTokenType =
    QtkAnd | QtkOr | QtkNot
  | QtkCmpEq | QtkCmpNe | QtkCmpGt | QtkCmpGe | QtkCmpLt | QtkCmpLe
  | QtkCmpGlob | QtkCmpRegexp
  | QtkOther nat

text \<open>
  The source reads \<open>expression.Pos().line\<close> and \<open>.col\<close>, \<open>token.tokenType\<close>,
  \<open>token.value\<close> and \<open>token.startPos\<close>; the field \<open>value\<close> is called \<open>tokValue\<close>
  here.
\<close>

record QueryScannerPos =
  line :: nat
  col :: nat

record QueryToken =
  tokenType :: QueryTokenType
  tokValue :: string
  startPos :: QueryScannerPos

record Operator =
  operator :: QueryToken

datatype FieldType = FtInvalid | FtString | FtNumber | FtDate | FtGlob | FtRegex

definition fieldTypeNames :: "(FieldType \<times> string) list" where
  "fieldTypeNames =
     [(FtInvalid, ''Invalid''), (FtString, ''String''), (FtNumber, ''Number''),
      (FtDate, ''Date''), (FtGlob, ''Glob''), (FtRegex, ''Regex'')]"

text \<open>\<open>fieldTypeNames[t]\<close>: a Go map read gives the empty string for a missing key.\<close>

definition fieldTypeName :: "FieldType \<Rightarrow> string" where
  "fieldTypeName t = (case map_of fieldTypeNames t of Some n \<Rightarrow> n | None \<Rightarrow> [])"

text \<open>
  \<open>FieldTypeDescriptor.FieldType(fieldName)\<close> returns \<open>(fieldType, fieldExists)\<close>.
\<close>

type_synonym FieldTypeDescriptor = "string \<Rightarrow> FieldType \<times> bool"

section \<open>The operand restriction table\<close>

datatype binaryOperatorPosition = bopLeft | bopRight

text \<open>
  The nested Go map literal, as nested association lists read with \<open>map_of\<close>.
\<close>

definition operatorAllowedOperandTypes ::
  "(QueryTokenType \<times> (binaryOperatorPosition \<times> (FieldType \<times> bool) list) list) list" where
  "operatorAllowedOperandTypes =
     [(QtkCmpGlob, [(bopLeft, [(FtString, True)]), (bopRight, [(FtGlob, True)])]),
      (QtkCmpRegexp, [(bopLeft, [(FtString, True)]), (bopRight, [(FtRegex, True)])])]"

definition isOperandTypeRestricted :: "Operator \<Rightarrow> bool" where
  "isOperandTypeRestricted opr =
     (case map_of operatorAllowedOperandTypes (tokenType (operator opr)) of
        None \<Rightarrow> False
      | Some _ \<Rightarrow> True)"

definition isValidArgument :: "Operator \<Rightarrow> binaryOperatorPosition \<Rightarrow> FieldType \<Rightarrow> bool" where
  "isValidArgument opr operatorPosition operandType =
     (case map_of operatorAllowedOperandTypes (tokenType (operator opr)) of
        None \<Rightarrow> True
      | Some allowedOperandTypes \<Rightarrow>
          (case map_of allowedOperandTypes operatorPosition of
             None \<Rightarrow> True
           | Some allowed \<Rightarrow>
               (case map_of allowed operandType of None \<Rightarrow> False | Some _ \<Rightarrow> True)))"

text \<open>
  \<open>allowedTypes\<close> ranges over the inner map and appends its keys; Go leaves the order of
  a map range open, and every inner map of the table has one key. The result for a
  missing operator or side is the nil slice, the empty list here.
\<close>

definition allowedTypes :: "Operator \<Rightarrow> binaryOperatorPosition \<Rightarrow> FieldType list" where
  "allowedTypes opr operatorPosition =
     (case map_of operatorAllowedOperandTypes (tokenType (operator opr)) of
        None \<Rightarrow> []
      | Some allowedOperandTypes \<Rightarrow>
          (case map_of allowedOperandTypes operatorPosition of
             None \<Rightarrow> []
           | Some allowed \<Rightarrow> map fst allowed))"

section \<open>Expressions\<close>

text \<open>
  A \<open>time.Time\<close> is kept by its calendar fields and its location: what \<open>Year()\<close>,
  \<open>Month()\<close>, \<open>Day()\<close>, \<open>Hour()\<close>, \<open>Minute()\<close>, \<open>Second()\<close>, \<open>Nanosecond()\<close> read,
  and what \<open>time.Date\<close> is given. \<open>time_Date y mo d h mi s ns l\<close> stands for the value
  \<open>time.Date\<close> returns for these arguments; how the library normalises fields out of
  range, or a wall clock time the zone skips, is not part of the model.
\<close>

datatype Location = UTC | Local

record Time =
  Year :: int
  Month :: int
  Day :: int
  Hour :: int
  Minute :: int
  Second :: int
  Nanosecond :: int
  Loc :: Location

definition time_Date :: "int \<Rightarrow> int \<Rightarrow> int \<Rightarrow> int \<Rightarrow> int \<Rightarrow> int \<Rightarrow> int \<Rightarrow> Location \<Rightarrow> Time" where
  "time_Date y mo d h mi s ns l =
     \<lparr>Year = y, Month = mo, Day = d, Hour = h, Minute = mi, Second = s, Nanosecond = ns,
      Loc = l\<rparr>"

text \<open>
  The node types of the tree. \<open>'g\<close> is the type of a compiled glob (\<open>glob.Glob\<close>), \<open>'r\<close>
  the type of a compiled regular expression (\<open>*regexp.Regexp\<close>). The struct fields are
  those the source reads: \<open>identifier.identifier\<close>, \<open>stringLiteral.value\<close>,
  \<open>dateLiteral.dateTime\<close> and \<open>.stringTime\<close>, \<open>regexLiteral.regex\<close> and \<open>.regexString\<close>,
  \<open>globLiteral.glob\<close> and \<open>.globString\<close>, \<open>parenExpression.expression\<close>,
  \<open>unaryExpression.operator\<close> and \<open>.expression\<close>, \<open>binaryExpression.operator\<close>,
  \<open>.lhs\<close> and \<open>.rhs\<close>. Modelled from the spec: \<open>NumberLiteral\<close>, whose declaration is
  not in \<^verbatim>\<open>util.go\<close> and of which the source reads no field, keeps its token only.
\<close>

datatype ('g, 'r) Expression =
    Identifier QueryToken
  | StringLiteral QueryToken
  | NumberLiteral QueryToken
  | DateLiteral Time QueryToken
  | RegexLiteral 'r QueryToken
  | GlobLiteral 'g QueryToken
  | ParenExpression "('g, 'r) Expression"
  | UnaryExpression Operator "('g, 'r) Expression"
  | BinaryExpression Operator "('g, 'r) Expression" "('g, 'r) Expression"

text \<open>
  The capability tests \<open>expression.(LogicalExpression)\<close>,
  \<open>expression.(ValidatableExpression)\<close> and \<open>expression.(TypeDescriptor)\<close>: a node type
  has the capability when the source gives it the methods of the interface.
  \<open>ConvertTypes\<close> and \<open>Validate\<close> are methods of the parenthesised, unary and binary
  expressions; \<open>Validate\<close> alone also of the identifier; \<open>FieldType\<close> of the identifier
  and the five literals.
\<close>

fun isLogicalExpression :: "('g, 'r) Expression \<Rightarrow> bool" where
  "isLogicalExpression (ParenExpression _) = True"
| "isLogicalExpression (UnaryExpression _ _) = True"
| "isLogicalExpression (BinaryExpression _ _ _) = True"
| "isLogicalExpression _ = False"

fun isValidatableExpression :: "('g, 'r) Expression \<Rightarrow> bool" where
  "isValidatableExpression (Identifier _) = True"
| "isValidatableExpression (ParenExpression _) = True"
| "isValidatableExpression (UnaryExpression _ _) = True"
| "isValidatableExpression (BinaryExpression _ _ _) = True"
| "isValidatableExpression _ = False"

fun isTypeDescriptor :: "('g, 'r) Expression \<Rightarrow> bool" where
  "isTypeDescriptor (Identifier _) = True"
| "isTypeDescriptor (StringLiteral _) = True"
| "isTypeDescriptor (NumberLiteral _) = True"
| "isTypeDescriptor (DateLiteral _ _) = True"
| "isTypeDescriptor (RegexLiteral _ _) = True"
| "isTypeDescriptor (GlobLiteral _ _) = True"
| "isTypeDescriptor _ = False"

text \<open>
  The \<open>FieldType\<close> methods, called \<open>FieldTypeOf\<close> here (the name is taken by the
  type). The last equation is never used: the other node types have
  no such method, and \<open>determineFieldType\<close> asks \<open>isTypeDescriptor\<close> first.
\<close>

fun FieldTypeOf :: "FieldTypeDescriptor \<Rightarrow> ('g, 'r) Expression \<Rightarrow> FieldType" where
  "FieldTypeOf ftd (DateLiteral _ _) = FtDate"
| "FieldTypeOf ftd (RegexLiteral _ _) = FtRegex"
| "FieldTypeOf ftd (GlobLiteral _ _) = FtGlob"
| "FieldTypeOf ftd (StringLiteral _) = FtString"
| "FieldTypeOf ftd (NumberLiteral _) = FtNumber"
| "FieldTypeOf ftd (Identifier identifier) =
     (case ftd (tokValue identifier) of
        (fieldType, fieldExists) \<Rightarrow> if fieldExists then fieldType else FtInvalid)"
| "FieldTypeOf ftd _ = FtInvalid"

text \<open>The zero values \<open>(FtInvalid, false)\<close> are returned for a node that is no value.\<close>

definition determineFieldType ::
  "('g, 'r) Expression \<Rightarrow> FieldTypeDescriptor \<Rightarrow> FieldType \<times> bool" where
  "determineFieldType expression ftd =
     (if isTypeDescriptor expression then (FieldTypeOf ftd expression, True)
      else (FtInvalid, False))"

text \<open>
  Modelled from the spec: \<open>IsComparison\<close>, a method of \<open>BinaryExpression\<close> that is not in
  \<^verbatim>\<open>util.go\<close>. The spec: a binary expression is "either a logical connective (AND/OR)
  or a comparison (equality, ordering, glob-match, regex-match); classification is a
  property of the operator".
\<close>

fun isComparisonToken :: "QueryTokenType \<Rightarrow> bool" where
  "isComparisonToken QtkCmpEq = True"
| "isComparisonToken QtkCmpNe = True"
| "isComparisonToken QtkCmpGt = True"
| "isComparisonToken QtkCmpGe = True"
| "isComparisonToken QtkCmpLt = True"
| "isComparisonToken QtkCmpLe = True"
| "isComparisonToken QtkCmpGlob = True"
| "isComparisonToken QtkCmpRegexp = True"
| "isComparisonToken _ = False"

definition IsComparison :: "Operator \<Rightarrow> bool" where
  "IsComparison opr = isComparisonToken (tokenType (operator opr))"

text \<open>
  \<open>Pos\<close>: the source gives it for the date, regex and glob literals (the start of the
  token kept). For the node types declared elsewhere it is the parameter \<open>nodePos\<close>.
\<close>

definition Pos ::
  "(('g, 'r) Expression \<Rightarrow> QueryScannerPos) \<Rightarrow> ('g, 'r) Expression \<Rightarrow> QueryScannerPos" where
  "Pos nodePos expression =
     (case expression of
        DateLiteral _ stringTime \<Rightarrow> startPos stringTime
      | RegexLiteral _ regexString \<Rightarrow> startPos regexString
      | GlobLiteral _ globString \<Rightarrow> startPos globString
      | _ \<Rightarrow> nodePos expression)"

section \<open>The literal coercion pass\<close>

text \<open>
  The three library calls of the pass, as parameters: \<open>time.Parse(layout, value)\<close>,
  \<open>glob.Compile(pattern)\<close> and \<open>regexp.Compile(expr)\<close>; \<open>None\<close> is a returned error.
\<close>

record ('g, 'r) Lib =
  time_Parse :: "string \<Rightarrow> string \<Rightarrow> Time option"
  glob_Compile :: "string \<Rightarrow> 'g option"
  regexp_Compile :: "string \<Rightarrow> 'r option"

definition queryDateFormat :: string where
  "queryDateFormat = ''2006-01-02''"

definition queryDateTimeFormat :: string where
  "queryDateTimeFormat = ''2006-01-02 15:04:05''"

text \<open>
  The two anchored patterns \<^verbatim>\<open>^\d{4}-\d{2}-\d{2}$\<close> and
  \<^verbatim>\<open>^\d{4}-\d{2}-\d{2} \d{2}:\d{2}:\d{2}$\<close>: a sequence of ASCII digits and literal
  bytes that has to cover the whole text.
\<close>

datatype patElem = Digit | Lit char

definition isDigit :: "char \<Rightarrow> bool" where
  "isDigit c = (c \<in> set ''0123456789'')"

fun MatchString :: "patElem list \<Rightarrow> string \<Rightarrow> bool" where
  "MatchString [] [] = True"
| "MatchString (Digit # ps) (c # cs) = (isDigit c \<and> MatchString ps cs)"
| "MatchString (Lit l # ps) (c # cs) = (c = l \<and> MatchString ps cs)"
| "MatchString _ _ = False"

definition dateFormatPattern :: "patElem list" where
  "dateFormatPattern =
     [Digit, Digit, Digit, Digit, Lit CHR ''-'', Digit, Digit, Lit CHR ''-'', Digit, Digit]"

definition dateTimeFormatPattern :: "patElem list" where
  "dateTimeFormatPattern =
     [Digit, Digit, Digit, Digit, Lit CHR ''-'', Digit, Digit, Lit CHR ''-'', Digit, Digit,
      Lit CHR '' '', Digit, Digit, Lit CHR '':'', Digit, Digit, Lit CHR '':'', Digit, Digit]"

text \<open>
  \<open>datePtr\<close>, \<open>globPtr\<close> and \<open>regexPtr\<close> point at one of the two operand slots of the
  binary expression; \<open>assign\<close> is the store through such a pointer. The operands of the
  binary expression are passed and returned as the pair \<open>(lhs, rhs)\<close>.
\<close>

datatype slot = LhsSlot | RhsSlot

fun assign ::
  "slot \<Rightarrow> ('g, 'r) Expression \<Rightarrow> ('g, 'r) Expression \<times> ('g, 'r) Expression \<Rightarrow>
   ('g, 'r) Expression \<times> ('g, 'r) Expression" where
  "assign LhsSlot e (lhs, rhs) = (e, rhs)"
| "assign RhsSlot e (lhs, rhs) = (lhs, e)"

text \<open>
  The type assertions \<open>e.(*Identifier)\<close> and \<open>e.(*StringLiteral)\<close> with the result
  \<open>nil\<close> as \<open>None\<close>; of either node only its token is read afterwards.
\<close>

fun asIdentifier :: "('g, 'r) Expression \<Rightarrow> QueryToken option" where
  "asIdentifier (Identifier identifier) = Some identifier"
| "asIdentifier _ = None"

fun asStringLiteral :: "('g, 'r) Expression \<Rightarrow> QueryToken option" where
  "asStringLiteral (StringLiteral v) = Some v"
| "asStringLiteral _ = None"

text \<open>
  The side detection shared by the three inferences: the statements from
  \<open>identifier, ok = binaryExpression.lhs.(*Identifier)\<close> to the end of the
  \<open>if\<close>/\<open>else\<close>. It yields the identifier, the candidate string and the slot.
\<close>

definition detectSides ::
  "('g, 'r) Expression \<Rightarrow> ('g, 'r) Expression \<Rightarrow> QueryToken option \<times> QueryToken option \<times> slot" where
  "detectSides lhs rhs =
     (case asIdentifier lhs of
        Some identifier \<Rightarrow> (Some identifier, asStringLiteral rhs, RhsSlot)
      | None \<Rightarrow> (asIdentifier rhs, asStringLiteral lhs, LhsSlot))"

definition isDateComparison ::
  "FieldTypeDescriptor \<Rightarrow> Operator \<Rightarrow> ('g, 'r) Expression \<Rightarrow> ('g, 'r) Expression \<Rightarrow>
   bool \<times> QueryToken option \<times> slot" where
  "isDateComparison ftd opr lhs rhs =
     (case detectSides lhs rhs of
        (identifier, dateString, datePtr) \<Rightarrow>
          (case (identifier, dateString) of
             (Some i, Some _) \<Rightarrow>
               (case ftd (tokValue i) of
                  (fieldType, fieldExists) \<Rightarrow>
                    if \<not> fieldExists \<or> fieldType \<noteq> FtDate then (False, dateString, datePtr)
                    else (True, dateString, datePtr))
           | _ \<Rightarrow> (False, dateString, datePtr)))"

text \<open>
  In the three \<open>process\<close> functions the branch \<open>dateString = None\<close> after a positive
  detection is never taken: detection is positive only with a string literal found. The
  glob and the regex detection return at once for another operator, with the nil
  string and the nil pointer as results; the pointer is never used then and is
  \<open>LhsSlot\<close> here.
\<close>

definition processDateComparison ::
  "('g, 'r) Lib \<Rightarrow> FieldTypeDescriptor \<Rightarrow> Operator \<Rightarrow>
   ('g, 'r) Expression \<times> ('g, 'r) Expression \<Rightarrow> ('g, 'r) Expression \<times> ('g, 'r) Expression" where
  "processDateComparison lib ftd opr operands =
     (case isDateComparison ftd opr (fst operands) (snd operands) of
        (isDate, dateString, datePtr) \<Rightarrow>
          if \<not> isDate then operands
          else
            (case dateString of
               None \<Rightarrow> operands
             | Some v \<Rightarrow>
                 (case (if MatchString dateFormatPattern (tokValue v) then Some queryDateFormat
                        else if MatchString dateTimeFormatPattern (tokValue v)
                        then Some queryDateTimeFormat
                        else None) of
                    None \<Rightarrow> operands
                  | Some dateFormat \<Rightarrow>
                      (case time_Parse lib dateFormat (tokValue v) of
                         None \<Rightarrow> operands
                       | Some utcDateTime \<Rightarrow>
                           assign datePtr
                             (DateLiteral
                                (time_Date (Year utcDateTime) (Month utcDateTime)
                                   (Day utcDateTime) (Hour utcDateTime) (Minute utcDateTime)
                                   (Second utcDateTime) (Nanosecond utcDateTime) Local)
                                v)
                             operands))))"

definition isGlobComparison ::
  "FieldTypeDescriptor \<Rightarrow> Operator \<Rightarrow> ('g, 'r) Expression \<Rightarrow> ('g, 'r) Expression \<Rightarrow>
   bool \<times> QueryToken option \<times> slot" where
  "isGlobComparison ftd opr lhs rhs =
     (if tokenType (operator opr) \<noteq> QtkCmpGlob then (False, None, LhsSlot)
      else
        (case detectSides lhs rhs of
           (identifier, globString, globPtr) \<Rightarrow>
             (case (identifier, globString) of
                (Some i, Some _) \<Rightarrow>
                  (case ftd (tokValue i) of
                     (fieldType, fieldExists) \<Rightarrow>
                       if \<not> fieldExists \<or> fieldType \<noteq> FtString
                       then (False, globString, globPtr)
                       else (True, globString, globPtr))
              | _ \<Rightarrow> (False, globString, globPtr))))"

definition processGlobComparison ::
  "('g, 'r) Lib \<Rightarrow> FieldTypeDescriptor \<Rightarrow> Operator \<Rightarrow>
   ('g, 'r) Expression \<times> ('g, 'r) Expression \<Rightarrow> ('g, 'r) Expression \<times> ('g, 'r) Expression" where
  "processGlobComparison lib ftd opr operands =
     (case isGlobComparison ftd opr (fst operands) (snd operands) of
        (isGlob, globString, globPtr) \<Rightarrow>
          if \<not> isGlob then operands
          else
            (case globString of
               None \<Rightarrow> operands
             | Some v \<Rightarrow>
                 (case glob_Compile lib (tokValue v) of
                    None \<Rightarrow> operands
                  | Some g \<Rightarrow> assign globPtr (GlobLiteral g v) operands)))"

definition isRegexComparison ::
  "FieldTypeDescriptor \<Rightarrow> Operator \<Rightarrow> ('g, 'r) Expression \<Rightarrow> ('g, 'r) Expression \<Rightarrow>
   bool \<times> QueryToken option \<times> slot" where
  "isRegexComparison ftd opr lhs rhs =
     (if tokenType (operator opr) \<noteq> QtkCmpRegexp then (False, None, LhsSlot)
      else
        (case detectSides lhs rhs of
           (identifier, regexString, regexPtr) \<Rightarrow>
             (case (identifier, regexString) of
                (Some i, Some _) \<Rightarrow>
                  (case ftd (tokValue i) of
                     (fieldType, fieldExists) \<Rightarrow>
                       if \<not> fieldExists \<or> fieldType \<noteq> FtString
                       then (False, regexString, regexPtr)
                       else (True, regexString, regexPtr))
              | _ \<Rightarrow> (False, regexString, regexPtr))))"

definition processRegexComparison ::
  "('g, 'r) Lib \<Rightarrow> FieldTypeDescriptor \<Rightarrow> Operator \<Rightarrow>
   ('g, 'r) Expression \<times> ('g, 'r) Expression \<Rightarrow> ('g, 'r) Expression \<times> ('g, 'r) Expression" where
  "processRegexComparison lib ftd opr operands =
     (case isRegexComparison ftd opr (fst operands) (snd operands) of
        (isRegex, regexString, regexPtr) \<Rightarrow>
          if \<not> isRegex then operands
          else
            (case regexString of
               None \<Rightarrow> operands
             | Some v \<Rightarrow>
                 (case regexp_Compile lib (tokValue v) of
                    None \<Rightarrow> operands
                  | Some re \<Rightarrow> assign regexPtr (RegexLiteral re v) operands)))"

text \<open>
  \<open>ConvertTypes\<close> mutates the tree in place and returns nothing; the model returns the
  tree after the call. The last equation is never used: the other node types have no
  such method, and every caller asks \<open>isLogicalExpression\<close> first.
\<close>

fun ConvertTypes ::
  "('g, 'r) Lib \<Rightarrow> FieldTypeDescriptor \<Rightarrow> ('g, 'r) Expression \<Rightarrow> ('g, 'r) Expression" where
  "ConvertTypes lib ftd (ParenExpression e) =
     ParenExpression (if isLogicalExpression e then ConvertTypes lib ftd e else e)"
| "ConvertTypes lib ftd (UnaryExpression opr e) =
     UnaryExpression opr (if isLogicalExpression e then ConvertTypes lib ftd e else e)"
| "ConvertTypes lib ftd (BinaryExpression opr lhs rhs) =
     (if \<not> IsComparison opr then
        BinaryExpression opr
          (if isLogicalExpression lhs then ConvertTypes lib ftd lhs else lhs)
          (if isLogicalExpression rhs then ConvertTypes lib ftd rhs else rhs)
      else
        (case processRegexComparison lib ftd opr
                (processGlobComparison lib ftd opr
                   (processDateComparison lib ftd opr (lhs, rhs))) of
           (lhs', rhs') \<Rightarrow> BinaryExpression opr lhs' rhs'))"
| "ConvertTypes lib ftd e = e"

section \<open>Diagnostics\<close>

text \<open>
  A Go \<open>error\<close> built by this file is kept by what it was built from, and \<open>Error\<close>
  gives its text. \<open>ExpressionError pos format args\<close> is the error of
  \<open>GenerateExpressionError\<close>: the position of the expression, the format \<open>errorMessage\<close>
  and its arguments. \<open>FmtError format args\<close> is the error of \<open>fmt.Errorf\<close>. Every
  argument the source passes is a string.
\<close>

datatype error =
    ExpressionError QueryScannerPos string "string list"
  | FmtError string "string list"

definition GenerateExpressionError ::
  "(('g, 'r) Expression \<Rightarrow> QueryScannerPos) \<Rightarrow> ('g, 'r) Expression \<Rightarrow> string \<Rightarrow> string list \<Rightarrow>
   error" where
  "GenerateExpressionError nodePos expression errorMessage args =
     ExpressionError (Pos nodePos expression) errorMessage args"

fun errorFormat :: "error \<Rightarrow> string" where
  "errorFormat (ExpressionError _ f _) = f"
| "errorFormat (FmtError f _) = f"

fun errorPos :: "error \<Rightarrow> QueryScannerPos option" where
  "errorPos (ExpressionError p _ _) = Some p"
| "errorPos (FmtError _ _) = None"

text \<open>
  \<open>fmt.Sprintf\<close> for the verb \<^verbatim>\<open>%v\<close> on strings, the only verb of the source. A verb
  without an argument prints \<^verbatim>\<open>%!v(MISSING)\<close>; no call of the source passes more
  arguments than verbs.
\<close>

fun Sprintf :: "string \<Rightarrow> string list \<Rightarrow> string" where
  "Sprintf [] args = []"
| "Sprintf [c] args = [c]"
| "Sprintf (c # d # rest) args =
     (if c = CHR ''%'' \<and> d = CHR ''v'' then
        (case args of
           a # args' \<Rightarrow> a @ Sprintf rest args'
         | [] \<Rightarrow> ''%!v(MISSING)'' @ Sprintf rest [])
      else c # Sprintf (d # rest) args)"

text \<open>The decimal text of a line or column number, as \<^verbatim>\<open>%v\<close> prints it.\<close>

definition digitChar :: "nat \<Rightarrow> char" where
  "digitChar d = ''0123456789'' ! d"

fun showNat :: "nat \<Rightarrow> string" where
  "showNat n =
     (if n < 10 then [digitChar n]
      else showNat (n div 10) @ [digitChar (n mod 10)])"

fun Error :: "error \<Rightarrow> string" where
  "Error (ExpressionError p f args) =
     showNat (line p) @ '':'' @ showNat (col p) @ '': '' @ Sprintf f args"
| "Error (FmtError f args) = Sprintf f args"

fun Join :: "string list \<Rightarrow> string \<Rightarrow> string" where
  "Join [] sep = []"
| "Join [x] sep = x"
| "Join (x # y # ys) sep = x @ sep @ Join (y # ys) sep"

definition fieldTypeNamesString :: "FieldType list \<Rightarrow> string" where
  "fieldTypeNamesString fieldTypes =
     Join (concat (map (\<lambda>fieldType. case map_of fieldTypeNames fieldType of
                                        Some name \<Rightarrow> [name]
                                      | None \<Rightarrow> [])
                       fieldTypes))
          '', ''"

section \<open>The validation pass\<close>

text \<open>
  The \<open>Validate\<close> methods. The last equation is never used: the literals have no such
  method, and every caller asks \<open>isLogicalExpression\<close> or \<open>isValidatableExpression\<close>
  first.
\<close>

fun Validate ::
  "(('g, 'r) Expression \<Rightarrow> QueryScannerPos) \<Rightarrow> FieldTypeDescriptor \<Rightarrow> ('g, 'r) Expression \<Rightarrow>
   error list" where
  "Validate nodePos ftd (Identifier identifier) =
     (case ftd (tokValue identifier) of
        (_, fieldExists) \<Rightarrow>
          if \<not> fieldExists then
            [GenerateExpressionError nodePos (Identifier identifier) ''Invalid field: %v''
               [tokValue identifier]]
          else [])"
| "Validate nodePos ftd (ParenExpression e) =
     (if \<not> isLogicalExpression e then
        [GenerateExpressionError nodePos (ParenExpression e)
           ''Expression in parentheses must resolve to a boolean value'' []]
      else [])
     @ (if isValidatableExpression e then Validate nodePos ftd e else [])"
| "Validate nodePos ftd (UnaryExpression opr e) =
     (if \<not> isLogicalExpression e then
        [GenerateExpressionError nodePos (UnaryExpression opr e)
           ''%v operator can only be applied to expressions that resolve to a boolean value''
           [tokValue (operator opr)]]
      else [])
     @ (if isValidatableExpression e then Validate nodePos ftd e else [])"
| "Validate nodePos ftd (BinaryExpression opr lhs rhs) =
     (if \<not> IsComparison opr then
        (if \<not> isLogicalExpression lhs then
           [GenerateExpressionError nodePos (BinaryExpression opr lhs rhs)
              ''Operands of a logical operator must resolve to boolean values'' []]
         else Validate nodePos ftd lhs)
        @ (if \<not> isLogicalExpression rhs then
             [GenerateExpressionError nodePos (BinaryExpression opr lhs rhs)
                ''Operands of a logical operator must resolve to boolean values'' []]
           else Validate nodePos ftd rhs)
      else
        (if isValidatableExpression lhs then Validate nodePos ftd lhs else [])
        @ (if isValidatableExpression rhs then Validate nodePos ftd rhs else [])
        @ (case determineFieldType lhs ftd of
             (lhsType, isLHSValueType) \<Rightarrow>
               (case determineFieldType rhs ftd of
                  (rhsType, isRHSValueType) \<Rightarrow>
                    if \<not> (isLHSValueType \<and> isRHSValueType) then
                      [GenerateExpressionError nodePos (BinaryExpression opr lhs rhs)
                         ''Comparison expressions must compare value types'' []]
                    else if isOperandTypeRestricted opr then
                      (if \<not> (lhsType = FtInvalid \<or> rhsType = FtInvalid) then
                         (if \<not> isValidArgument opr bopLeft lhsType then
                            [GenerateExpressionError nodePos (BinaryExpression opr lhs rhs)
                               ''Argument on LHS has invalid type: %v. Allowed types are: %v''
                               [fieldTypeName lhsType,
                                fieldTypeNamesString (allowedTypes opr bopLeft)]]
                          else [])
                         @ (if \<not> isValidArgument opr bopRight rhsType then
                              [GenerateExpressionError nodePos (BinaryExpression opr lhs rhs)
                                 ''Argument on RHS has invalid type: %v. Allowed types are: %v''
                                 [fieldTypeName rhsType,
                                  fieldTypeNamesString (allowedTypes opr bopRight)]]
                            else [])
                       else [])
                    else if lhsType \<noteq> rhsType \<and> \<not> (lhsType = FtInvalid \<or> rhsType = FtInvalid)
                    then
                      [GenerateExpressionError nodePos (BinaryExpression opr lhs rhs)
                         ''Attempting to compare different types - LHS Type: %v vs RHS Type: %v''
                         [fieldTypeName lhsType, fieldTypeName rhsType]]
                    else [])))"
| "Validate nodePos ftd e = []"

section \<open>The expression processor\<close>

record ('g, 'r) ExpressionProcessor =
  expression :: "('g, 'r) Expression"
  fieldTypeDescriptor :: FieldTypeDescriptor

definition NewExpressionProcessor ::
  "('g, 'r) Expression \<Rightarrow> FieldTypeDescriptor \<Rightarrow> ('g, 'r) ExpressionProcessor" where
  "NewExpressionProcessor e ftd = \<lparr>expression = e, fieldTypeDescriptor = ftd\<rparr>"

text \<open>
  \<open>reflect.TypeOf(expression).Elem().Name()\<close>: the name of the struct type behind the
  pointer.
\<close>

fun typeName :: "('g, 'r) Expression \<Rightarrow> string" where
  "typeName (Identifier _) = ''Identifier''"
| "typeName (StringLiteral _) = ''StringLiteral''"
| "typeName (NumberLiteral _) = ''NumberLiteral''"
| "typeName (DateLiteral _ _) = ''DateLiteral''"
| "typeName (RegexLiteral _ _) = ''RegexLiteral''"
| "typeName (GlobLiteral _ _) = ''GlobLiteral''"
| "typeName (ParenExpression _) = ''ParenExpression''"
| "typeName (UnaryExpression _ _) = ''UnaryExpression''"
| "typeName (BinaryExpression _ _ _) = ''BinaryExpression''"

text \<open>
  \<open>Process\<close> has the named results \<open>(expression, errors)\<close>. The first is assigned in
  the \<open>if\<close> branch only and is the nil interface value otherwise: \<open>None\<close> here.
  \<open>ConvertTypes\<close> works in place on the tree the processor holds, so the model returns
  the processor after the call as well: the triple is the processor, the result
  \<open>expression\<close> and the result \<open>errors\<close>.
\<close>

definition Process ::
  "('g, 'r) Lib \<Rightarrow> (('g, 'r) Expression \<Rightarrow> QueryScannerPos) \<Rightarrow> ('g, 'r) ExpressionProcessor \<Rightarrow>
   ('g, 'r) ExpressionProcessor \<times> ('g, 'r) Expression option \<times> error list" where
  "Process lib nodePos expressionProcessor =
     (if isLogicalExpression (expression expressionProcessor) then
        (let logicalExpression =
               ConvertTypes lib (fieldTypeDescriptor expressionProcessor)
                 (expression expressionProcessor)
         in (expressionProcessor\<lparr>expression := logicalExpression\<rparr>,
             Some logicalExpression,
             Validate nodePos (fieldTypeDescriptor expressionProcessor) logicalExpression))
      else
        (expressionProcessor,
         None,
         [FmtError ''Expected logical expression but received expression of type %v''
            [typeName (expression expressionProcessor)]]))"

section \<open>A sample library and sample trees\<close>

text \<open>
  A concrete instance of the library parameter, for evaluating the passes on examples.
  \<open>sampleTimeParse\<close> follows \<open>time.Parse\<close> on the two layouts of this file: numeric
  fields of fixed width, the month from 1 to 12, the day within the month, the hour below
  24, minute and second below 60, the result in UTC. The sample glob and regex compilers
  keep the pattern text as the compiled value; they refuse the patterns \<^verbatim>\<open>[\<close> and
  \<^verbatim>\<open>(\<close>, which the libraries refuse as unterminated, and no other: they are meant
  for the patterns of the examples only.
\<close>

definition digitsVal :: "string \<Rightarrow> int" where
  "digitsVal s = foldl (\<lambda>a c. 10 * a + (int (of_char c) - 48)) 0 s"

definition isLeap :: "int \<Rightarrow> bool" where
  "isLeap y = (y mod 4 = 0 \<and> (y mod 100 \<noteq> 0 \<or> y mod 400 = 0))"

definition daysIn :: "int \<Rightarrow> int \<Rightarrow> int" where
  "daysIn m y =
     (if m = 2 then (if isLeap y then 29 else 28)
      else if m = 4 \<or> m = 6 \<or> m = 9 \<or> m = 11 then 30
      else 31)"

definition sampleCivil :: "int \<Rightarrow> int \<Rightarrow> int \<Rightarrow> int \<Rightarrow> int \<Rightarrow> int \<Rightarrow> Time option" where
  "sampleCivil y mo d h mi s =
     (if 1 \<le> mo \<and> mo \<le> 12 \<and> 1 \<le> d \<and> d \<le> daysIn mo y \<and> h < 24 \<and> mi < 60 \<and> s < 60
      then Some (time_Date y mo d h mi s 0 UTC)
      else None)"

definition sampleTimeParse :: "string \<Rightarrow> string \<Rightarrow> Time option" where
  "sampleTimeParse layout v =
     (if layout = queryDateFormat \<and> MatchString dateFormatPattern v then
        sampleCivil (digitsVal (take 4 v)) (digitsVal (take 2 (drop 5 v)))
          (digitsVal (take 2 (drop 8 v))) 0 0 0
      else if layout = queryDateTimeFormat \<and> MatchString dateTimeFormatPattern v then
        sampleCivil (digitsVal (take 4 v)) (digitsVal (take 2 (drop 5 v)))
          (digitsVal (take 2 (drop 8 v))) (digitsVal (take 2 (drop 11 v)))
          (digitsVal (take 2 (drop 14 v))) (digitsVal (take 2 (drop 17 v)))
      else None)"

definition sampleLib :: "(string, string) Lib" where
  "sampleLib =
     \<lparr>time_Parse = sampleTimeParse,
      glob_Compile = (\<lambda>p. if p = ''['' then None else Some p),
      regexp_Compile = (\<lambda>p. if p = ''('' then None else Some p)\<rparr>"

text \<open>
  A sample schema with the fields \<open>name\<close> (String), \<open>created\<close> (Date) and \<open>size\<close>
  (Number); every other field does not exist.
\<close>

definition sampleFields :: FieldTypeDescriptor where
  "sampleFields f =
     (if f = ''name'' then (FtString, True)
      else if f = ''created'' then (FtDate, True)
      else if f = ''size'' then (FtNumber, True)
      else (FtInvalid, False))"

definition sampleTok :: "QueryTokenType \<Rightarrow> string \<Rightarrow> nat \<Rightarrow> QueryToken" where
  "sampleTok t v c = \<lparr>tokenType = t, tokValue = v, startPos = \<lparr>line = 1, col = c\<rparr>\<rparr>"

definition sampleOp :: "QueryTokenType \<Rightarrow> string \<Rightarrow> nat \<Rightarrow> Operator" where
  "sampleOp t v c = \<lparr>operator = sampleTok t v c\<rparr>"

text \<open>
  A sample position for the nodes whose \<open>Pos\<close> is declared elsewhere: the start of the
  token of a leaf and of the operator of a unary expression, the position of the first
  child otherwise.
\<close>

fun samplePos :: "('g, 'r) Expression \<Rightarrow> QueryScannerPos" where
  "samplePos (Identifier t) = startPos t"
| "samplePos (StringLiteral t) = startPos t"
| "samplePos (NumberLiteral t) = startPos t"
| "samplePos (DateLiteral _ t) = startPos t"
| "samplePos (RegexLiteral _ t) = startPos t"
| "samplePos (GlobLiteral _ t) = startPos t"
| "samplePos (ParenExpression e) = samplePos e"
| "samplePos (UnaryExpression o1 _) = startPos (operator o1)"
| "samplePos (BinaryExpression _ l _) = samplePos l"

text \<open>
  Sample leaves: an identifier, a string literal and a number literal at a column of
  line 1. The kinds of their tokens are not read by the passes.
\<close>

definition sampleIdent :: "string \<Rightarrow> nat \<Rightarrow> (string, string) Expression" where
  "sampleIdent n c = Identifier (sampleTok (QtkOther 0) n c)"

definition sampleString :: "string \<Rightarrow> nat \<Rightarrow> (string, string) Expression" where
  "sampleString v c = StringLiteral (sampleTok (QtkOther 1) v c)"

definition sampleNumber :: "string \<Rightarrow> nat \<Rightarrow> (string, string) Expression" where
  "sampleNumber v c = NumberLiteral (sampleTok (QtkOther 2) v c)"

text \<open>The query \<^verbatim>\<open>name GLOB "a*.txt" AND created > "2021-06-01"\<close>.\<close>

definition sampleQuery :: "(string, string) Expression" where
  "sampleQuery =
     BinaryExpression (sampleOp QtkAnd ''AND'' 20)
       (BinaryExpression (sampleOp QtkCmpGlob ''GLOB'' 6)
          (sampleIdent ''name'' 1) (sampleString ''a*.txt'' 11))
       (BinaryExpression (sampleOp QtkCmpGt ''>'' 32)
          (sampleIdent ''created'' 24) (sampleString ''2021-06-01'' 34))"

section \<open>The properties as the specification words them\<close>

text \<open>
  The date a candidate string stands for, as the specification words it: the string
  "must fully match one of two fixed patterns", is parsed "using the matched pattern",
  and the date literal is built "in the local time zone from the parsed calendar
  fields".
\<close>

definition specDateLiteral :: "('g, 'r) Lib \<Rightarrow> string \<Rightarrow> Time option" where
  "specDateLiteral lib s =
     (if MatchString dateFormatPattern s then
        map_option (\<lambda>u. u\<lparr>Loc := Local\<rparr>) (time_Parse lib queryDateFormat s)
      else if MatchString dateTimeFormatPattern s then
        map_option (\<lambda>u. u\<lparr>Loc := Local\<rparr>) (time_Parse lib queryDateTimeFormat s)
      else None)"

text \<open>The binary expression with its two operands exchanged.\<close>

fun swapOperands :: "('g, 'r) Expression \<Rightarrow> ('g, 'r) Expression" where
  "swapOperands (BinaryExpression opr lhs rhs) = BinaryExpression opr rhs lhs"
| "swapOperands e = e"

text \<open>
  The only change the specification allows in an operand slot: a string literal gives
  way to a date, glob or regex literal that carries the token of the string literal.
\<close>

fun literalReplaced :: "('g, 'r) Expression \<Rightarrow> ('g, 'r) Expression \<Rightarrow> bool" where
  "literalReplaced (StringLiteral v) (DateLiteral _ v') = (v' = v)"
| "literalReplaced (StringLiteral v) (GlobLiteral _ v') = (v' = v)"
| "literalReplaced (StringLiteral v) (RegexLiteral _ v') = (v' = v)"
| "literalReplaced _ _ = False"

text \<open>
  \<open>sameShape e e'\<close>: the tree \<open>e'\<close> is the tree \<open>e\<close> but for operand slots of comparison
  expressions in which a string literal was replaced as above.
\<close>

fun sameShape :: "('g, 'r) Expression \<Rightarrow> ('g, 'r) Expression \<Rightarrow> bool" where
  "sameShape (ParenExpression e) (ParenExpression e') = sameShape e e'"
| "sameShape (UnaryExpression opr e) (UnaryExpression opr' e') = (opr' = opr \<and> sameShape e e')"
| "sameShape (BinaryExpression opr lhs rhs) (BinaryExpression opr' lhs' rhs') =
     (opr' = opr \<and>
      (if IsComparison opr then
         (lhs' = lhs \<or> literalReplaced lhs lhs') \<and> (rhs' = rhs \<or> literalReplaced rhs rhs')
       else sameShape lhs lhs' \<and> sameShape rhs rhs'))"
| "sameShape e e' = (e' = e)"

text \<open>
  What the three inferences of the specification put in the place of the string literal
  \<open>v\<close> that a comparison with the operator \<open>opr\<close> compares with the identifier \<open>i\<close>:
  a date literal for a Date field, a glob literal for a String field under the glob-match
  operator, a regex literal for a String field under the regex-match operator, each when
  the text parses or compiles; the string literal itself otherwise.
\<close>

definition inferredLiteral ::
  "('g, 'r) Lib \<Rightarrow> FieldTypeDescriptor \<Rightarrow> Operator \<Rightarrow> QueryToken \<Rightarrow> QueryToken \<Rightarrow>
   ('g, 'r) Expression" where
  "inferredLiteral lib ftd opr i v =
     (case ftd (tokValue i) of
        (fieldType, fieldExists) \<Rightarrow>
          if fieldExists \<and> fieldType = FtDate then
            (case specDateLiteral lib (tokValue v) of
               Some t \<Rightarrow> DateLiteral t v
             | None \<Rightarrow> StringLiteral v)
          else if fieldExists \<and> fieldType = FtString \<and> tokenType (operator opr) = QtkCmpGlob
          then
            (case glob_Compile lib (tokValue v) of
               Some g \<Rightarrow> GlobLiteral g v
             | None \<Rightarrow> StringLiteral v)
          else if fieldExists \<and> fieldType = FtString \<and> tokenType (operator opr) = QtkCmpRegexp
          then
            (case regexp_Compile lib (tokValue v) of
               Some re \<Rightarrow> RegexLiteral re v
             | None \<Rightarrow> StringLiteral v)
          else StringLiteral v)"

section \<open>The operand restriction table: what it restricts\<close>

text \<open>
  Claim C2. The table restricts the glob-match and the regex-match operator and no
  other. For the glob-match operator the left operand has to be a String and the right
  operand a Glob; for the regex-match operator the left a String and the right a Regex.
  For every other operator kind \<open>isOperandTypeRestricted\<close> is false, \<open>isValidArgument\<close>
  is true for every side and type, and \<open>allowedTypes\<close> is empty for both sides.
\<close>

theorem operand_restriction_table:
  "(isOperandTypeRestricted opr \<longleftrightarrow>
      tokenType (operator opr) = QtkCmpGlob \<or> tokenType (operator opr) = QtkCmpRegexp)
   \<and> (tokenType (operator opr) = QtkCmpGlob \<longrightarrow>
        (\<forall>t. isValidArgument opr bopLeft t \<longleftrightarrow> t = FtString) \<and>
        (\<forall>t. isValidArgument opr bopRight t \<longleftrightarrow> t = FtGlob) \<and>
        allowedTypes opr bopLeft = [FtString] \<and> allowedTypes opr bopRight = [FtGlob])
   \<and> (tokenType (operator opr) = QtkCmpRegexp \<longrightarrow>
        (\<forall>t. isValidArgument opr bopLeft t \<longleftrightarrow> t = FtString) \<and>
        (\<forall>t. isValidArgument opr bopRight t \<longleftrightarrow> t = FtRegex) \<and>
        allowedTypes opr bopLeft = [FtString] \<and> allowedTypes opr bopRight = [FtRegex])
   \<and> (tokenType (operator opr) \<noteq> QtkCmpGlob \<and> tokenType (operator opr) \<noteq> QtkCmpRegexp \<longrightarrow>
        \<not> isOperandTypeRestricted opr \<and>
        (\<forall>side t. isValidArgument opr side t) \<and>
        (\<forall>side. allowedTypes opr side = []))"
  by (auto simp: isOperandTypeRestricted_def isValidArgument_def allowedTypes_def
        operatorAllowedOperandTypes_def split: option.splits if_splits)

theorem operand_restriction_table_witness:
  "isOperandTypeRestricted (sampleOp QtkCmpGlob ''GLOB'' 6)
   \<and> isValidArgument (sampleOp QtkCmpGlob ''GLOB'' 6) bopRight FtGlob
   \<and> allowedTypes (sampleOp QtkCmpGlob ''GLOB'' 6) bopLeft = [FtString]
   \<and> isValidArgument (sampleOp QtkCmpRegexp ''REGEXP'' 6) bopRight FtRegex
   \<and> allowedTypes (sampleOp QtkCmpRegexp ''REGEXP'' 6) bopRight = [FtRegex]
   \<and> isValidArgument (sampleOp QtkCmpEq ''='' 6) bopLeft FtNumber
   \<and> allowedTypes (sampleOp QtkCmpEq ''='' 6) bopRight = []"
  using operand_restriction_table [of "sampleOp QtkCmpGlob ''GLOB'' 6"]
    operand_restriction_table [of "sampleOp QtkCmpRegexp ''REGEXP'' 6"]
    operand_restriction_table [of "sampleOp QtkCmpEq ''='' 6"]
  by (simp add: sampleOp_def sampleTok_def)

section \<open>Facts about the side detection and the three inferences\<close>

lemma asIdentifier_Some: "asIdentifier e = Some i \<longleftrightarrow> e = Identifier i"
  by (cases e) auto

lemma asStringLiteral_Some: "asStringLiteral e = Some v \<longleftrightarrow> e = StringLiteral v"
  by (cases e) auto

lemma detectSides_found:
  "detectSides lhs rhs = (Some i, Some v, s) \<longleftrightarrow>
     (lhs = Identifier i \<and> rhs = StringLiteral v \<and> s = RhsSlot) \<or>
     (lhs = StringLiteral v \<and> rhs = Identifier i \<and> s = LhsSlot)"
  by (cases lhs) (auto simp: detectSides_def asIdentifier_Some asStringLiteral_Some)

lemma detectSides_not_found:
  "\<not> (\<exists>i v. lhs = Identifier i \<and> rhs = StringLiteral v) \<Longrightarrow>
   \<not> (\<exists>i v. lhs = StringLiteral v \<and> rhs = Identifier i) \<Longrightarrow>
   detectSides lhs rhs = (a, b, s) \<Longrightarrow> a = None \<or> b = None"
  using detectSides_found[of lhs rhs]
  by (cases a; cases b) auto

lemma time_Date_local:
  "time_Date (Year u) (Month u) (Day u) (Hour u) (Minute u) (Second u) (Nanosecond u) Local
   = u\<lparr>Loc := Local\<rparr>"
  by (cases u) (simp add: time_Date_def)




text \<open>
  The coercion of a comparison, by the shape of its operands: an identifier and a string
  literal in either order, or anything else.
\<close>

lemma convert_identifier_string:
  "IsComparison opr \<Longrightarrow>
   ConvertTypes lib ftd (BinaryExpression opr (Identifier i) (StringLiteral v)) =
   BinaryExpression opr (Identifier i) (inferredLiteral lib ftd opr i v)"
  by (cases "ftd (tokValue i)")
     (simp add: inferredLiteral_def specDateLiteral_def processDateComparison_def
        isDateComparison_def processGlobComparison_def isGlobComparison_def
        processRegexComparison_def isRegexComparison_def detectSides_def time_Date_local
      split: option.split)

lemma convert_string_identifier:
  "IsComparison opr \<Longrightarrow>
   ConvertTypes lib ftd (BinaryExpression opr (StringLiteral v) (Identifier i)) =
   BinaryExpression opr (inferredLiteral lib ftd opr i v) (Identifier i)"
  by (cases "ftd (tokValue i)")
     (simp add: inferredLiteral_def specDateLiteral_def processDateComparison_def
        isDateComparison_def processGlobComparison_def isGlobComparison_def
        processRegexComparison_def isRegexComparison_def detectSides_def time_Date_local
      split: option.split)

lemma convert_other:
  assumes "IsComparison opr"
    and "\<not> (\<exists>i v. lhs = Identifier i \<and> rhs = StringLiteral v)"
    and "\<not> (\<exists>i v. lhs = StringLiteral v \<and> rhs = Identifier i)"
  shows "ConvertTypes lib ftd (BinaryExpression opr lhs rhs) = BinaryExpression opr lhs rhs"
proof -
  obtain a b s where d: "detectSides lhs rhs = (a, b, s)"
    by (cases "detectSides lhs rhs") auto
  from detectSides_not_found[OF assms(2,3) d] have n: "a = None \<or> b = None" .
  have 1: "processDateComparison lib ftd opr (lhs, rhs) = (lhs, rhs)"
    using d n by (auto simp: processDateComparison_def isDateComparison_def split: option.splits)
  have 2: "processGlobComparison lib ftd opr (lhs, rhs) = (lhs, rhs)"
    using d n by (auto simp: processGlobComparison_def isGlobComparison_def split: option.splits)
  have 3: "processRegexComparison lib ftd opr (lhs, rhs) = (lhs, rhs)"
    using d n by (auto simp: processRegexComparison_def isRegexComparison_def split: option.splits)
  show ?thesis using assms(1) by (simp add: 1 2 3)
qed

lemma operand_shapes:
  obtains (forward) i v where "lhs = Identifier i" and "rhs = StringLiteral v"
  | (backward) i v where "lhs = StringLiteral v" and "rhs = Identifier i"
  | (other) "\<not> (\<exists>i v. lhs = Identifier i \<and> rhs = StringLiteral v)"
      and "\<not> (\<exists>i v. lhs = StringLiteral v \<and> rhs = Identifier i)"
  by blast

lemma inferredLiteral_cases:
  "inferredLiteral lib ftd opr i v = StringLiteral v \<or>
   literalReplaced (StringLiteral v) (inferredLiteral lib ftd opr i v)"
  by (auto simp: inferredLiteral_def split: prod.splits option.splits)

lemma inferredLiteral_date:
  "ftd (tokValue i) = (FtDate, True) \<Longrightarrow>
   inferredLiteral lib ftd opr i v =
     (case specDateLiteral lib (tokValue v) of
        Some t \<Rightarrow> DateLiteral t v
      | None \<Rightarrow> StringLiteral v)"
  by (simp add: inferredLiteral_def)

lemma literalReplaced_not_string:
  "literalReplaced a b \<Longrightarrow> asStringLiteral b = None \<and> asIdentifier b = None"
  by (cases a; cases b) auto

lemma isLogical_ConvertTypes:
  "isLogicalExpression (ConvertTypes lib ftd e) = isLogicalExpression e"
  by (cases e) (auto split: prod.splits)

lemma convert_comparison_shape:
  assumes c: "IsComparison opr"
  shows "\<exists>lhs' rhs'.
           ConvertTypes lib ftd (BinaryExpression opr lhs rhs) = BinaryExpression opr lhs' rhs' \<and>
           (lhs' = lhs \<or> literalReplaced lhs lhs') \<and> (rhs' = rhs \<or> literalReplaced rhs rhs')"
proof (cases lhs rhs rule: operand_shapes)
  case (forward i v)
  then show ?thesis using c inferredLiteral_cases[of lib ftd opr i v]
    by (auto simp: convert_identifier_string simp del: ConvertTypes.simps)
next
  case (backward i v)
  then show ?thesis using c inferredLiteral_cases[of lib ftd opr i v]
    by (auto simp: convert_string_identifier simp del: ConvertTypes.simps)
next
  case other
  then show ?thesis using c by (simp add: convert_other del: ConvertTypes.simps)
qed

lemma convert_comparison_idem:
  assumes c: "IsComparison opr"
  shows "ConvertTypes lib ftd (ConvertTypes lib ftd (BinaryExpression opr lhs rhs)) =
         ConvertTypes lib ftd (BinaryExpression opr lhs rhs)"
proof (cases lhs rhs rule: operand_shapes)
  case (forward i v)
  show ?thesis
  proof (cases "inferredLiteral lib ftd opr i v = StringLiteral v")
    case True
    then show ?thesis using c forward
      by (simp add: convert_identifier_string del: ConvertTypes.simps)
  next
    case False
    then have "literalReplaced (StringLiteral v) (inferredLiteral lib ftd opr i v)"
      using inferredLiteral_cases[of lib ftd opr i v] by simp
    then have "asStringLiteral (inferredLiteral lib ftd opr i v) = None"
      by (simp add: literalReplaced_not_string)
    then have "\<not> (\<exists>i' v'. Identifier i = Identifier i' \<and>
                   inferredLiteral lib ftd opr i v = StringLiteral v')"
      by auto
    then show ?thesis using c forward
      by (simp add: convert_identifier_string convert_other del: ConvertTypes.simps)
  qed
next
  case (backward i v)
  show ?thesis
  proof (cases "inferredLiteral lib ftd opr i v = StringLiteral v")
    case True
    then show ?thesis using c backward
      by (simp add: convert_string_identifier del: ConvertTypes.simps)
  next
    case False
    then have "literalReplaced (StringLiteral v) (inferredLiteral lib ftd opr i v)"
      using inferredLiteral_cases[of lib ftd opr i v] by simp
    then have n: "asStringLiteral (inferredLiteral lib ftd opr i v) = None"
      "asIdentifier (inferredLiteral lib ftd opr i v) = None"
      by (simp_all add: literalReplaced_not_string)
    have "\<not> (\<exists>i' v'. inferredLiteral lib ftd opr i v = StringLiteral v' \<and>
              Identifier i = Identifier i')"
      using n by auto
    moreover have "\<not> (\<exists>i' v'. inferredLiteral lib ftd opr i v = Identifier i' \<and>
                       Identifier i = StringLiteral v')"
      by auto
    ultimately show ?thesis using c backward
      by (simp add: convert_string_identifier convert_other del: ConvertTypes.simps)
  qed
next
  case other
  then show ?thesis using c by (simp add: convert_other del: ConvertTypes.simps)
qed

lemma convert_swap:
  assumes c: "IsComparison opr"
  shows "ConvertTypes lib ftd (BinaryExpression opr rhs lhs) =
         swapOperands (ConvertTypes lib ftd (BinaryExpression opr lhs rhs))"
proof (cases lhs rhs rule: operand_shapes)
  case (forward i v)
  then show ?thesis using c
    by (simp add: convert_identifier_string convert_string_identifier del: ConvertTypes.simps)
next
  case (backward i v)
  then show ?thesis using c
    by (simp add: convert_identifier_string convert_string_identifier del: ConvertTypes.simps)
next
  case other
  have 1: "ConvertTypes lib ftd (BinaryExpression opr lhs rhs) = BinaryExpression opr lhs rhs"
    using c other by (rule convert_other)
  have 2: "ConvertTypes lib ftd (BinaryExpression opr rhs lhs) = BinaryExpression opr rhs lhs"
  proof (rule convert_other [OF c])
    show "\<not> (\<exists>i v. rhs = Identifier i \<and> lhs = StringLiteral v)" using other(2) by blast
    show "\<not> (\<exists>i v. rhs = StringLiteral v \<and> lhs = Identifier i)" using other(1) by blast
  qed
  show ?thesis unfolding 1 2 by simp
qed

lemma sameShape_refl: "sameShape e e"
  by (induction e) auto

lemma Validate_swap_formats:
  assumes "IsComparison opr" and "\<not> isOperandTypeRestricted opr"
  shows "set (map errorFormat (Validate nodePos ftd (BinaryExpression opr rhs lhs))) =
         set (map errorFormat (Validate nodePos ftd (BinaryExpression opr lhs rhs)))"
proof -
  obtain lt lv where l: "determineFieldType lhs ftd = (lt, lv)"
    by (cases "determineFieldType lhs ftd") auto
  obtain rt rv where r: "determineFieldType rhs ftd = (rt, rv)"
    by (cases "determineFieldType rhs ftd") auto
  show ?thesis
    using assms by (auto simp: GenerateExpressionError_def l r)
qed

lemmas sample_defs =
  sampleOp_def sampleTok_def sampleIdent_def sampleString_def sampleNumber_def
  sampleFields_def sampleLib_def sampleTimeParse_def sampleCivil_def daysIn_def isLeap_def
  digitsVal_def sampleQuery_def

lemmas model_defs =
  IsComparison_def determineFieldType_def GenerateExpressionError_def Pos_def
  isOperandTypeRestricted_def isValidArgument_def allowedTypes_def
  operatorAllowedOperandTypes_def fieldTypeName_def fieldTypeNames_def
  fieldTypeNamesString_def digitChar_def

lemmas coercion_defs =
  processDateComparison_def isDateComparison_def processGlobComparison_def
  isGlobComparison_def processRegexComparison_def isRegexComparison_def detectSides_def
  specDateLiteral_def dateFormatPattern_def dateTimeFormatPattern_def isDigit_def
  queryDateFormat_def queryDateTimeFormat_def time_Date_def

section \<open>Date inference\<close>



section \<open>Invalid operand types in the validation of a comparison\<close>

text \<open>
  Claim C3. In the validation of a comparison both of whose sides are values with a
  field type, a side of type Invalid suppresses the diagnostic of a restricted operand
  type and the diagnostic of different types: the diagnostics of the node are those of
  its validatable operands and no other.
\<close>

theorem invalid_side_suppresses_type_checks:
  assumes "IsComparison opr"
    and "determineFieldType lhs ftd = (lhsType, True)"
    and "determineFieldType rhs ftd = (rhsType, True)"
    and "lhsType = FtInvalid \<or> rhsType = FtInvalid"
  shows "Validate nodePos ftd (BinaryExpression opr lhs rhs) =
           (if isValidatableExpression lhs then Validate nodePos ftd lhs else [])
           @ (if isValidatableExpression rhs then Validate nodePos ftd rhs else [])"
  using assms by auto

theorem invalid_side_suppresses_type_checks_witness:
  "IsComparison (sampleOp QtkCmpGlob ''GLOB'' 7)
   \<and> determineFieldType (sampleIdent ''ghost'' 1) sampleFields = (FtInvalid, True)
   \<and> determineFieldType (sampleNumber ''5'' 12) sampleFields = (FtNumber, True)
   \<and> Validate samplePos sampleFields
       (BinaryExpression (sampleOp QtkCmpGlob ''GLOB'' 7)
          (sampleIdent ''ghost'' 1) (sampleNumber ''5'' 12)) =
     [ExpressionError \<lparr>line = 1, col = 1\<rparr> ''Invalid field: %v'' [''ghost'']]"
  using invalid_side_suppresses_type_checks
    [where opr = "sampleOp QtkCmpGlob ''GLOB'' 7" and ftd = sampleFields
       and lhs = "sampleIdent ''ghost'' 1" and rhs = "sampleNumber ''5'' 12"
       and lhsType = FtInvalid and rhsType = FtNumber and nodePos = samplePos]
  by (simp add: sample_defs model_defs)

section \<open>A root that is no logical expression\<close>

text \<open>
  Claim C4, as the specification states it, fails: for a root that is no logical
  expression \<open>Process\<close> does not return the input expression. The result \<open>expression\<close>
  is assigned in the other branch only, so the nil value is returned.
\<close>

theorem process_returns_input_counterexample:
  "fst (snd (Process sampleLib samplePos
               (NewExpressionProcessor (sampleIdent ''name'' 1) sampleFields)))
   \<noteq> Some (sampleIdent ''name'' 1)"
  by (simp add: Process_def NewExpressionProcessor_def sampleIdent_def)

text \<open>
  Claim C4, amended. For a root that is no logical expression \<open>Process\<close> returns no
  expression (the nil value) and exactly one diagnostic, whose text is "Expected logical
  expression but received expression of type" followed by the name of the type of the
  root. It performs no coercion and no validation: the tree the processor holds is left
  as it was.
\<close>

theorem process_rejects_non_logical_root:
  assumes "\<not> isLogicalExpression e"
  shows "Process lib nodePos (NewExpressionProcessor e ftd) =
           (NewExpressionProcessor e ftd,
            None,
            [FmtError ''Expected logical expression but received expression of type %v''
               [typeName e]])
         \<and> map Error (snd (snd (Process lib nodePos (NewExpressionProcessor e ftd)))) =
           [''Expected logical expression but received expression of type '' @ typeName e]"
  using assms by (simp add: Process_def NewExpressionProcessor_def)

theorem process_rejects_non_logical_root_witness:
  "\<not> isLogicalExpression (sampleIdent ''name'' 1)
   \<and> Process sampleLib samplePos (NewExpressionProcessor (sampleIdent ''name'' 1) sampleFields) =
       (NewExpressionProcessor (sampleIdent ''name'' 1) sampleFields,
        None,
        [FmtError ''Expected logical expression but received expression of type %v''
           [''Identifier'']])
   \<and> map Error (snd (snd (Process sampleLib samplePos
                             (NewExpressionProcessor (sampleIdent ''name'' 1) sampleFields)))) =
       [''Expected logical expression but received expression of type Identifier'']"
  using process_rejects_non_logical_root
    [where e = "sampleIdent ''name'' 1" and lib = sampleLib and nodePos = samplePos
       and ftd = sampleFields]
  by (simp add: sampleIdent_def)

section \<open>Failed coercions\<close>

text \<open>
  Claim C5. When an inference applies to a comparison and its date parse, glob compile
  or regex compile fails, the coercion pass leaves both operands as they were, and the
  candidate operand is still a value of type String. The pass has no diagnostic among
  its results on any tree: \<open>ConvertTypes\<close> returns the tree alone.
\<close>

theorem failed_coercion_is_silent:
  assumes "IsComparison opr"
    and "(isDateComparison ftd opr lhs rhs = (True, Some v, s) \<and>
            specDateLiteral lib (tokValue v) = None)
         \<or> (isGlobComparison ftd opr lhs rhs = (True, Some v, s) \<and>
            glob_Compile lib (tokValue v) = None)
         \<or> (isRegexComparison ftd opr lhs rhs = (True, Some v, s) \<and>
            regexp_Compile lib (tokValue v) = None)"
  shows "ConvertTypes lib ftd (BinaryExpression opr lhs rhs) = BinaryExpression opr lhs rhs
         \<and> determineFieldType (case s of LhsSlot \<Rightarrow> lhs | RhsSlot \<Rightarrow> rhs) ftd
             = (FtString, True)"
proof -
  from assms(2) obtain i where
    shape: "(lhs = Identifier i \<and> rhs = StringLiteral v \<and> s = RhsSlot) \<or>
            (lhs = StringLiteral v \<and> rhs = Identifier i \<and> s = LhsSlot)"
    and fail: "inferredLiteral lib ftd opr i v = StringLiteral v"
    by (auto simp: isDateComparison_def isGlobComparison_def isRegexComparison_def
          detectSides_found inferredLiteral_def
        split: prod.splits option.splits if_splits)
  from shape show ?thesis
    using assms(1) fail
    by (auto simp: convert_identifier_string convert_string_identifier determineFieldType_def
        simp del: ConvertTypes.simps)
qed

theorem failed_coercion_is_silent_witness:
  "IsComparison (sampleOp QtkCmpEq ''='' 9)
   \<and> isDateComparison sampleFields (sampleOp QtkCmpEq ''='' 9)
       (sampleIdent ''created'' 1) (sampleString ''2021-13-01'' 11) =
       (True, Some (sampleTok (QtkOther 1) ''2021-13-01'' 11), RhsSlot)
   \<and> specDateLiteral sampleLib ''2021-13-01'' = None
   \<and> ConvertTypes sampleLib sampleFields
       (BinaryExpression (sampleOp QtkCmpEq ''='' 9)
          (sampleIdent ''created'' 1) (sampleString ''2021-13-01'' 11)) =
     BinaryExpression (sampleOp QtkCmpEq ''='' 9)
       (sampleIdent ''created'' 1) (sampleString ''2021-13-01'' 11)
   \<and> IsComparison (sampleOp QtkCmpGlob ''GLOB'' 5)
   \<and> isGlobComparison sampleFields (sampleOp QtkCmpGlob ''GLOB'' 5)
       (sampleString ''['' 1) (sampleIdent ''name'' 10) =
       (True, Some (sampleTok (QtkOther 1) ''['' 1), LhsSlot)
   \<and> glob_Compile sampleLib ''['' = None
   \<and> ConvertTypes sampleLib sampleFields
       (BinaryExpression (sampleOp QtkCmpGlob ''GLOB'' 5)
          (sampleString ''['' 1) (sampleIdent ''name'' 10)) =
     BinaryExpression (sampleOp QtkCmpGlob ''GLOB'' 5)
       (sampleString ''['' 1) (sampleIdent ''name'' 10)"
  using
    failed_coercion_is_silent [where opr = "sampleOp QtkCmpEq ''='' 9" and ftd = sampleFields
      and lib = sampleLib and lhs = "sampleIdent ''created'' 1"
      and rhs = "sampleString ''2021-13-01'' 11"
      and v = "sampleTok (QtkOther 1) ''2021-13-01'' 11" and s = RhsSlot]
    failed_coercion_is_silent [where opr = "sampleOp QtkCmpGlob ''GLOB'' 5"
      and ftd = sampleFields and lib = sampleLib and lhs = "sampleString ''['' 1"
      and rhs = "sampleIdent ''name'' 10" and v = "sampleTok (QtkOther 1) ''['' 1"
      and s = LhsSlot]
  by (simp add: sample_defs model_defs coercion_defs del: ConvertTypes.simps)

section \<open>Idempotence of the coercion pass\<close>

text \<open>
  Claim C6. The coercion pass is idempotent: for every tree and every oracle, a second
  run on the tree the first run produced changes nothing.
\<close>

theorem ConvertTypes_idempotent:
  "ConvertTypes lib ftd (ConvertTypes lib ftd e) = ConvertTypes lib ftd e"
proof (induction e)
  case (BinaryExpression opr lhs rhs)
  show ?case
  proof (cases "IsComparison opr")
    case True
    then show ?thesis by (rule convert_comparison_idem)
  next
    case False
    then show ?thesis using BinaryExpression
      by (simp add: isLogical_ConvertTypes)
  qed
qed (simp_all add: isLogical_ConvertTypes)

theorem ConvertTypes_idempotent_witness:
  "ConvertTypes sampleLib sampleFields (ConvertTypes sampleLib sampleFields sampleQuery) =
   ConvertTypes sampleLib sampleFields sampleQuery"
  using ConvertTypes_idempotent [of sampleLib sampleFields sampleQuery]
  by simp

section \<open>The order of the operands\<close>

text \<open>
  Claim C7, as the specification states it, fails: exchanging the operands of a
  comparison can change the diagnostics of the validation. The restriction table names
  a type for each side of the glob-match and the regex-match operator: a String on the
  left, a Glob or Regex on the right. So \<^verbatim>\<open>name GLOB "a*.txt"\<close> has no diagnostic,
  and \<^verbatim>\<open>"a*.txt" GLOB name\<close>, in which the coercion pass puts the glob literal on the
  left, has the diagnostics of an invalid type on both sides.
\<close>

theorem validation_side_order_counterexample:
  "snd (snd (Process sampleLib samplePos
          (NewExpressionProcessor
             (BinaryExpression (sampleOp QtkCmpGlob ''GLOB'' 6)
                (sampleIdent ''name'' 1) (sampleString ''a*.txt'' 11))
             sampleFields))) = []
   \<and> map Error (snd (snd (Process sampleLib samplePos
          (NewExpressionProcessor
             (BinaryExpression (sampleOp QtkCmpGlob ''GLOB'' 10)
                (sampleString ''a*.txt'' 1) (sampleIdent ''name'' 15))
             sampleFields)))) =
     [''1:1: Argument on LHS has invalid type: Glob. Allowed types are: String'',
      ''1:1: Argument on RHS has invalid type: String. Allowed types are: Glob'']"
  by (simp add: Process_def NewExpressionProcessor_def Let_def sample_defs model_defs
        coercion_defs)

text \<open>
  Claim C7, amended. For every comparison, exchanging the two operands does not change
  whether an inference applies nor what it puts in the place of the string literal: the
  coerced tree of the exchanged comparison is the coerced tree of the comparison with
  its operands exchanged. For a comparison whose operator is not in the restriction
  table, exchanging the operands does not change the set of the kinds (the formats) of
  the diagnostics of the validation after coercion. In particular, for such an operator,
  an existing Date field and a string literal that stands for a date, either order gives
  a date literal and no diagnostic.
\<close>

theorem operand_order_independence:
  assumes "IsComparison opr"
  shows "ConvertTypes lib ftd (BinaryExpression opr rhs lhs) =
           swapOperands (ConvertTypes lib ftd (BinaryExpression opr lhs rhs))
         \<and> (\<not> isOperandTypeRestricted opr \<longrightarrow>
              set (map errorFormat (Validate nodePos ftd
                     (ConvertTypes lib ftd (BinaryExpression opr rhs lhs)))) =
              set (map errorFormat (Validate nodePos ftd
                     (ConvertTypes lib ftd (BinaryExpression opr lhs rhs)))))
         \<and> (\<not> isOperandTypeRestricted opr \<and> ftd (tokValue i) = (FtDate, True) \<and>
              specDateLiteral lib (tokValue v) = Some t \<longrightarrow>
              ConvertTypes lib ftd (BinaryExpression opr (Identifier i) (StringLiteral v)) =
                BinaryExpression opr (Identifier i) (DateLiteral t v) \<and>
              ConvertTypes lib ftd (BinaryExpression opr (StringLiteral v) (Identifier i)) =
                BinaryExpression opr (DateLiteral t v) (Identifier i) \<and>
              Validate nodePos ftd (BinaryExpression opr (Identifier i) (DateLiteral t v)) = [] \<and>
              Validate nodePos ftd (BinaryExpression opr (DateLiteral t v) (Identifier i)) = [])"
proof -
  have a: "ConvertTypes lib ftd (BinaryExpression opr rhs lhs) =
           swapOperands (ConvertTypes lib ftd (BinaryExpression opr lhs rhs))"
    using assms by (rule convert_swap)
  obtain l' r' where
    r: "ConvertTypes lib ftd (BinaryExpression opr lhs rhs) = BinaryExpression opr l' r'"
    using convert_comparison_shape[OF assms, of lib ftd lhs rhs] by blast
  have b: "\<not> isOperandTypeRestricted opr \<longrightarrow>
              set (map errorFormat (Validate nodePos ftd
                     (ConvertTypes lib ftd (BinaryExpression opr rhs lhs)))) =
              set (map errorFormat (Validate nodePos ftd
                     (ConvertTypes lib ftd (BinaryExpression opr lhs rhs))))"
    unfolding a r using Validate_swap_formats[OF assms, of nodePos ftd r' l'] by simp
  have c: "\<not> isOperandTypeRestricted opr \<and> ftd (tokValue i) = (FtDate, True) \<and>
              specDateLiteral lib (tokValue v) = Some t \<longrightarrow>
              ConvertTypes lib ftd (BinaryExpression opr (Identifier i) (StringLiteral v)) =
                BinaryExpression opr (Identifier i) (DateLiteral t v) \<and>
              ConvertTypes lib ftd (BinaryExpression opr (StringLiteral v) (Identifier i)) =
                BinaryExpression opr (DateLiteral t v) (Identifier i) \<and>
              Validate nodePos ftd (BinaryExpression opr (Identifier i) (DateLiteral t v)) = [] \<and>
              Validate nodePos ftd (BinaryExpression opr (DateLiteral t v) (Identifier i)) = []"
    using assms
    by (auto simp: convert_identifier_string convert_string_identifier inferredLiteral_date
          determineFieldType_def simp del: ConvertTypes.simps)
  from a b c show ?thesis by blast
qed

theorem operand_order_independence_witness:
  "IsComparison (sampleOp QtkCmpEq ''='' 9)
   \<and> \<not> isOperandTypeRestricted (sampleOp QtkCmpEq ''='' 9)
   \<and> sampleFields ''created'' = (FtDate, True)
   \<and> specDateLiteral sampleLib ''2021-01-01'' = Some (time_Date 2021 1 1 0 0 0 0 Local)
   \<and> Process sampleLib samplePos
       (NewExpressionProcessor
          (BinaryExpression (sampleOp QtkCmpEq ''='' 9)
             (sampleIdent ''created'' 1) (sampleString ''2021-01-01'' 11))
          sampleFields) =
     (NewExpressionProcessor
        (BinaryExpression (sampleOp QtkCmpEq ''='' 9)
           (sampleIdent ''created'' 1)
           (DateLiteral (time_Date 2021 1 1 0 0 0 0 Local)
              (sampleTok (QtkOther 1) ''2021-01-01'' 11)))
        sampleFields,
      Some (BinaryExpression (sampleOp QtkCmpEq ''='' 9)
              (sampleIdent ''created'' 1)
              (DateLiteral (time_Date 2021 1 1 0 0 0 0 Local)
                 (sampleTok (QtkOther 1) ''2021-01-01'' 11))),
      [])
   \<and> Process sampleLib samplePos
       (NewExpressionProcessor
          (BinaryExpression (sampleOp QtkCmpEq ''='' 9)
             (sampleString ''2021-01-01'' 11) (sampleIdent ''created'' 1))
          sampleFields) =
     (NewExpressionProcessor
        (BinaryExpression (sampleOp QtkCmpEq ''='' 9)
           (DateLiteral (time_Date 2021 1 1 0 0 0 0 Local)
              (sampleTok (QtkOther 1) ''2021-01-01'' 11))
           (sampleIdent ''created'' 1))
        sampleFields,
      Some (BinaryExpression (sampleOp QtkCmpEq ''='' 9)
              (DateLiteral (time_Date 2021 1 1 0 0 0 0 Local)
                 (sampleTok (QtkOther 1) ''2021-01-01'' 11))
              (sampleIdent ''created'' 1)),
      [])"
  using operand_order_independence
    [where opr = "sampleOp QtkCmpEq ''='' 9" and ftd = sampleFields and lib = sampleLib
       and nodePos = samplePos and i = "sampleTok (QtkOther 0) ''created'' 1"
       and v = "sampleTok (QtkOther 1) ''2021-01-01'' 11"
       and t = "time_Date 2021 1 1 0 0 0 0 Local"
       and lhs = "sampleIdent ''created'' 1" and rhs = "sampleString ''2021-01-01'' 11"]
  by (simp add: Process_def NewExpressionProcessor_def Let_def sample_defs model_defs
        coercion_defs)

section \<open>Operands of a logical connective\<close>

text \<open>
  Claim C8, as the specification states it, fails: the validation of
  \<^verbatim>\<open>name AND "literal"\<close> does not give exactly one diagnostic. The bare identifier is
  no logical expression either, and each side is checked on its own.
\<close>

theorem one_diagnostic_counterexample:
  "length (Validate samplePos sampleFields
             (BinaryExpression (sampleOp QtkAnd ''AND'' 6)
                (sampleIdent ''name'' 1) (sampleString ''literal'' 10)))
   \<noteq> 1"
  by (simp add: sample_defs model_defs)

text \<open>
  Claim C8, amended. The validation of a logical connective whose left side is a bare
  identifier and whose right side is a string literal gives exactly two diagnostics, one
  for each side, both with the message "Operands of a logical operator must resolve to
  boolean values" and the position of the binary expression.
\<close>

theorem identifier_and_literal_two_diagnostics:
  assumes "\<not> IsComparison opr"
  shows "Validate nodePos ftd (BinaryExpression opr (Identifier i) (StringLiteral v)) =
           [ExpressionError (Pos nodePos (BinaryExpression opr (Identifier i) (StringLiteral v)))
              ''Operands of a logical operator must resolve to boolean values'' [],
            ExpressionError (Pos nodePos (BinaryExpression opr (Identifier i) (StringLiteral v)))
              ''Operands of a logical operator must resolve to boolean values'' []]"
  using assms by (simp add: GenerateExpressionError_def)

theorem identifier_and_literal_two_diagnostics_witness:
  "\<not> IsComparison (sampleOp QtkAnd ''AND'' 6)
   \<and> map Error (Validate samplePos sampleFields
                  (BinaryExpression (sampleOp QtkAnd ''AND'' 6)
                     (sampleIdent ''name'' 1) (sampleString ''literal'' 10))) =
       [''1:1: Operands of a logical operator must resolve to boolean values'',
        ''1:1: Operands of a logical operator must resolve to boolean values'']"
  using identifier_and_literal_two_diagnostics
    [where opr = "sampleOp QtkAnd ''AND'' 6" and nodePos = samplePos and ftd = sampleFields
       and i = "sampleTok (QtkOther 0) ''name'' 1"
       and v = "sampleTok (QtkOther 1) ''literal'' 10"]
  by (simp add: sample_defs model_defs)

text \<open>
  Claim C10. Under a logical connective an operand that is no logical expression is
  not validated, even when it has a \<open>Validate\<close> method (an identifier): its place in the
  list of diagnostics is taken by the one diagnostic "Operands of a logical operator must
  resolve to boolean values", and that diagnostic has the position of the binary
  expression, not of the operand.
\<close>

theorem non_logical_operand_not_validated:
  assumes "\<not> IsComparison opr"
  shows "(\<not> isLogicalExpression lhs \<longrightarrow>
            Validate nodePos ftd (BinaryExpression opr lhs rhs) =
              ExpressionError (Pos nodePos (BinaryExpression opr lhs rhs))
                ''Operands of a logical operator must resolve to boolean values'' []
              # (if isLogicalExpression rhs then Validate nodePos ftd rhs
                 else [ExpressionError (Pos nodePos (BinaryExpression opr lhs rhs))
                         ''Operands of a logical operator must resolve to boolean values'' []]))
       \<and> (\<not> isLogicalExpression rhs \<longrightarrow>
            Validate nodePos ftd (BinaryExpression opr lhs rhs) =
              (if isLogicalExpression lhs then Validate nodePos ftd lhs
               else [ExpressionError (Pos nodePos (BinaryExpression opr lhs rhs))
                       ''Operands of a logical operator must resolve to boolean values'' []])
              @ [ExpressionError (Pos nodePos (BinaryExpression opr lhs rhs))
                   ''Operands of a logical operator must resolve to boolean values'' []])"
  using assms by (simp add: GenerateExpressionError_def)

theorem non_logical_operand_not_validated_witness:
  "\<not> IsComparison (sampleOp QtkAnd ''AND'' 13)
   \<and> \<not> isLogicalExpression (sampleIdent ''ghost'' 17)
   \<and> Validate samplePos sampleFields (sampleIdent ''ghost'' 17) =
       [ExpressionError \<lparr>line = 1, col = 17\<rparr> ''Invalid field: %v'' [''ghost'']]
   \<and> Validate samplePos sampleFields
       (BinaryExpression (sampleOp QtkAnd ''AND'' 13)
          (BinaryExpression (sampleOp QtkCmpEq ''='' 6)
             (sampleIdent ''size'' 1) (sampleNumber ''5'' 8))
          (sampleIdent ''ghost'' 17)) =
       [ExpressionError \<lparr>line = 1, col = 1\<rparr>
          ''Operands of a logical operator must resolve to boolean values'' []]"
  using non_logical_operand_not_validated
    [where opr = "sampleOp QtkAnd ''AND'' 13" and nodePos = samplePos and ftd = sampleFields
       and lhs = "BinaryExpression (sampleOp QtkCmpEq ''='' 6)
                    (sampleIdent ''size'' 1) (sampleNumber ''5'' 8)"
       and rhs = "sampleIdent ''ghost'' 17"]
  by (simp add: sample_defs model_defs)

section \<open>The shape of the tree\<close>

text \<open>
  Claim C9. The coercion pass never changes the shape of the tree: the tree after the
  pass is the tree before it but for operand slots of comparison expressions in which a
  string literal gave way to a date, glob or regex literal with the token of the string
  literal.
\<close>

theorem ConvertTypes_keeps_shape: "sameShape e (ConvertTypes lib ftd e)"
proof (induction e)
  case (BinaryExpression opr lhs rhs)
  show ?case
  proof (cases "IsComparison opr")
    case True
    from convert_comparison_shape[OF True, of lib ftd lhs rhs] True
    show ?thesis by (auto simp del: ConvertTypes.simps)
  next
    case False
    then show ?thesis using BinaryExpression by (simp add: sameShape_refl)
  qed
qed (simp_all add: sameShape_refl)

theorem ConvertTypes_keeps_shape_witness:
  "sameShape sampleQuery (ConvertTypes sampleLib sampleFields sampleQuery)
   \<and> ConvertTypes sampleLib sampleFields sampleQuery =
     BinaryExpression (sampleOp QtkAnd ''AND'' 20)
       (BinaryExpression (sampleOp QtkCmpGlob ''GLOB'' 6)
          (sampleIdent ''name'' 1)
          (GlobLiteral ''a*.txt'' (sampleTok (QtkOther 1) ''a*.txt'' 11)))
       (BinaryExpression (sampleOp QtkCmpGt ''>'' 32)
          (sampleIdent ''created'' 24)
          (DateLiteral (time_Date 2021 6 1 0 0 0 0 Local)
             (sampleTok (QtkOther 1) ''2021-06-01'' 34)))"
  using ConvertTypes_keeps_shape [of sampleQuery sampleLib sampleFields]
  by (simp add: sample_defs model_defs coercion_defs)

end
